theory Spec2Isabelle
  imports Complex_Main
begin

section \<open>react-webllm: the provider's lifecycle layer\<close>

text \<open>
  The development embeds \<^verbatim>\<open>src/provider.tsx\<close> and \<^verbatim>\<open>src/types.ts\<close>.
  The React state cells of \<^verbatim>\<open>LLMProvider\<close> (\<^verbatim>\<open>engine\<close>, \<^verbatim>\<open>initialized\<close>,
  \<^verbatim>\<open>supported\<close>, \<^verbatim>\<open>initProgress\<close>, \<^verbatim>\<open>systemInfo\<close>) form one record, and each
  callback is a function from the state of the latest render to the settled value of
  its promise, the next state and the list of effects it performed. Operations are
  taken one at a time: the interleaving of two unfinished calls is not modelled. A
  callback kept from an earlier render still reads the state cells of that render,
  while its setters act on the current state: \<open>initialize_held\<close> is
  \<^verbatim>\<open>initialize\<close> called through such a reference. The effect that runs at mount
  calls \<^verbatim>\<open>checkWebLLMSupport\<close> and then, when asked to, \<^verbatim>\<open>initialize\<close>; both are
  operations here.

  The browser and the WebLLM engine are outside the repository. What they answer is a
  parameter of each operation: a \<open>host\<close> record for the browser globals the probe
  reads, and an \<open>engine_behaviour\<close> record for the engine's entry points. A JavaScript
  \<^verbatim>\<open>number\<close> is only stored, forwarded and compared here, never computed with.
\<close>

subsection \<open>Values of the language\<close>

type_synonym number = real

text \<open>
  A thrown value: either an \<^verbatim>\<open>Error\<close> object with its \<^verbatim>\<open>message\<close>
  (\<^verbatim>\<open>error instanceof Error\<close> holds), or any other value, kept as its printed form.
\<close>

datatype thrown = JsError string | NonError string

text \<open>The settled value of a promise: \<open>Inl\<close> is a rejection, \<open>Inr\<close> a fulfilment.\<close>

type_synonym 'a promise = "thrown + 'a"

subsection \<open>The data of \<^verbatim>\<open>types.ts\<close>\<close>

type_synonym WebLLMModelOption = string

definition defaultModel :: WebLLMModelOption where
  "defaultModel = ''Llama-3.1-8B-Instruct-q4f32_1-MLC''"

datatype init_status = StInitializing | StSuccess | StError | StNotStarted

text \<open>\<^verbatim>\<open>WebLLMInitProgress\<close>; its field \<^verbatim>\<open>text\<close> is \<open>progress_text\<close> here.\<close>

record WebLLMInitProgress =
  progress :: number
  progress_text :: string
  status :: init_status

datatype role = User | Assistant | System | Function

record ChatMessage =
  role :: role
  content :: string

record GenerationOptions =
  temperature :: "number option"
  max_tokens :: "number option"
  top_p :: "number option"
  top_k :: "number option"
  repetition_penalty :: "number option"
  stop :: "string list option"

datatype gen_status = GenSuccess | GenError

text \<open>
  \<^verbatim>\<open>GenerationResponse\<close>; its fields \<^verbatim>\<open>text\<close>, \<^verbatim>\<open>status\<close>, \<^verbatim>\<open>error\<close> carry the
  prefix \<open>response_\<close>, since \<^verbatim>\<open>WebLLMInitProgress\<close> has fields of the same names.
\<close>

record GenerationResponse =
  response_text :: string
  response_status :: gen_status
  response_error :: "string option"

text \<open>\<^verbatim>\<open>SystemInfo\<close>; its field \<^verbatim>\<open>supported\<close> is \<open>info_supported\<close> here.\<close>

record SystemInfo =
  info_supported :: bool
  webGPUAvailable :: bool
  webGLAvailable :: bool
  sharedArrayBufferAvailable :: bool
  gpuVendor :: "string option"

subsection \<open>The browser\<close>

text \<open>
  What the probe reads: \<^verbatim>\<open>typeof WebAssembly === 'object'\<close>, the value of
  \<^verbatim>\<open>'gpu' in navigator\<close>, the canvas made by \<^verbatim>\<open>document.createElement\<close> with the
  answers of its \<^verbatim>\<open>getContext\<close> (\<open>True\<close> for a context, \<open>False\<close> for \<^verbatim>\<open>null\<close>),
  and \<^verbatim>\<open>typeof SharedArrayBuffer === 'function'\<close>. Each expression that can throw
  has a promise-like value.
\<close>

record canvas =
  getContext_webgl :: "bool promise"
  getContext_webgl2 :: "bool promise"

record host =
  webAssemblyIsObject :: bool
  gpuInNavigator :: "bool promise"
  createCanvas :: "canvas promise"
  sharedArrayBufferIsFunction :: bool

subsection \<open>The engine\<close>

record InitProgressReport =
  report_progress :: number
  report_text :: string

text \<open>
  The object literal passed to \<^verbatim>\<open>engine.chat.completions.create\<close> has exactly the
  keys \<^verbatim>\<open>messages\<close>, \<^verbatim>\<open>temperature\<close>, \<^verbatim>\<open>max_tokens\<close>, \<^verbatim>\<open>top_p\<close> and \<^verbatim>\<open>stop\<close>;
  \<open>None\<close> is \<^verbatim>\<open>undefined\<close>.
\<close>

record ChatCompletionRequest =
  req_messages :: "ChatMessage list"
  req_temperature :: number
  req_max_tokens :: "number option"
  req_top_p :: "number option"
  req_stop :: "string list option"

text \<open>A choice of the completion, reduced to \<^verbatim>\<open>message.content\<close> (\<open>None\<close> is \<^verbatim>\<open>null\<close>).\<close>

record ChatCompletionChoice =
  message_content :: "string option"

record ChatCompletion =
  choices :: "ChatCompletionChoice list"

text \<open>
  The engine's answers, for a session handle of type \<open>'e\<close>:
  \<^verbatim>\<open>CreateMLCEngine\<close> delivers a list of progress reports to its callback and then
  settles (a report after it settled is not modelled); the three methods of a session
  settle.
\<close>

record 'e engine_behaviour =
  createMLCEngine :: "WebLLMModelOption \<Rightarrow> InitProgressReport list \<times> 'e promise"
  getGPUVendor :: "'e \<Rightarrow> string promise"
  completionsCreate :: "'e \<Rightarrow> ChatCompletionRequest \<Rightarrow> ChatCompletion promise"
  engineResetChat :: "'e \<Rightarrow> unit promise"

subsection \<open>State and effects\<close>

record 'e provider_state =
  engine :: "'e option"
  initialized :: bool
  supported :: bool
  initProgress :: WebLLMInitProgress
  systemInfo :: SystemInfo

text \<open>
  The effects of an operation, in order: each engine call with what it settled to,
  each \<^verbatim>\<open>setInitProgress\<close>, each console line.
\<close>

datatype 'e effect =
    CallCreateMLCEngine WebLLMModelOption "'e promise"
  | CallGetGPUVendor 'e "string promise"
  | CallCompletionsCreate 'e ChatCompletionRequest "ChatCompletion promise"
  | CallResetChat 'e "unit promise"
  | SetInitProgress WebLLMInitProgress
  | ConsoleError string thrown
  | ConsoleLog string thrown

type_synonym ('e, 'a) outcome = "'a promise \<times> 'e provider_state \<times> 'e effect list"

definition initial_state :: "'e provider_state" where
  "initial_state =
     \<lparr>engine = None, initialized = False, supported = False,
      initProgress = \<lparr>progress = 0, progress_text = ''Not initialized'', status = StNotStarted\<rparr>,
      systemInfo = \<lparr>info_supported = False, webGPUAvailable = False,
                    webGLAvailable = False, sharedArrayBufferAvailable = False,
                    gpuVendor = None\<rparr>\<rparr>"

subsection \<open>\<^verbatim>\<open>checkWebLLMSupport\<close>\<close>

text \<open>
  The body of the \<^verbatim>\<open>try\<close> block up to \<^verbatim>\<open>hasWebGL\<close>: the pair
  \<open>(hasWebGPU, hasWebGL)\<close>, or what was thrown. The second \<^verbatim>\<open>getContext\<close> is only
  evaluated when the first returned \<^verbatim>\<open>null\<close>.
\<close>

definition probe_backends :: "host \<Rightarrow> (bool \<times> bool) promise" where
  "probe_backends h =
     (case gpuInNavigator h of
        Inl err \<Rightarrow> Inl err
      | Inr hasWebGPU \<Rightarrow>
          (case createCanvas h of
             Inl err \<Rightarrow> Inl err
           | Inr c \<Rightarrow>
               (case getContext_webgl c of
                  Inl err \<Rightarrow> Inl err
                | Inr gl \<Rightarrow>
                    if gl then Inr (hasWebGPU, True)
                    else (case getContext_webgl2 c of
                            Inl err \<Rightarrow> Inl err
                          | Inr gl2 \<Rightarrow> Inr (hasWebGPU, gl2)))))"

definition mark_unsupported :: "'e provider_state \<Rightarrow> 'e provider_state" where
  "mark_unsupported s =
     s\<lparr>supported := False, systemInfo := (systemInfo s)\<lparr>info_supported := False\<rparr>\<rparr>"

definition checkWebLLMSupport :: "host \<Rightarrow> 'e provider_state \<Rightarrow> ('e, bool) outcome" where
  "checkWebLLMSupport h s =
     (if \<not> webAssemblyIsObject h then (Inr False, mark_unsupported s, [])
      else
        (case probe_backends h of
           Inr (hasWebGPU, hasWebGL) \<Rightarrow>
             (let isSupported = (hasWebGL \<or> hasWebGPU)
              in (Inr isSupported,
                  s\<lparr>supported := isSupported,
                    systemInfo :=
                      \<lparr>info_supported = isSupported, webGPUAvailable = hasWebGPU,
                       webGLAvailable = hasWebGL,
                       sharedArrayBufferAvailable = sharedArrayBufferIsFunction h,
                       gpuVendor = None\<rparr>\<rparr>,
                  []))
         | Inl err \<Rightarrow>
             (Inr False, mark_unsupported s,
              [ConsoleError ''Error checking WebLLM support:'' err])))"

subsection \<open>\<^verbatim>\<open>initialize\<close>\<close>

definition progressCallback :: "InitProgressReport \<Rightarrow> WebLLMInitProgress" where
  "progressCallback report =
     \<lparr>progress = report_progress report, progress_text = report_text report,
      status = StInitializing\<rparr>"

definition unsupported_progress :: WebLLMInitProgress where
  "unsupported_progress =
     \<lparr>progress = 0, progress_text = ''WebLLM is not supported in this browser'', status = StError\<rparr>"

definition starting_progress :: WebLLMInitProgress where
  "starting_progress =
     \<lparr>progress = 0, progress_text = ''Initializing WebLLM...'', status = StInitializing\<rparr>"

definition success_progress :: WebLLMInitProgress where
  "success_progress =
     \<lparr>progress = 1, progress_text = ''WebLLM initialized successfully'', status = StSuccess\<rparr>"

definition failure_progress :: "thrown \<Rightarrow> WebLLMInitProgress" where
  "failure_progress err =
     \<lparr>progress = 0,
      progress_text = ''Failed to initialize WebLLM: '' @
             (case err of JsError m \<Rightarrow> m | NonError _ \<Rightarrow> ''Unknown error''),
      status = StError\<rparr>"

text \<open>
  Lines 108 to 152: from the first \<^verbatim>\<open>setInitProgress\<close> to the end, on the state \<open>s\<close>
  and after the effects \<open>fx\<close> of the probe.
\<close>

definition create_session ::
  "'e engine_behaviour \<Rightarrow> WebLLMModelOption \<Rightarrow> 'e provider_state \<Rightarrow> 'e effect list \<Rightarrow>
   ('e, bool) outcome" where
  "create_session w modelOption s fx =
     (case createMLCEngine w modelOption of
        (reports, settled) \<Rightarrow>
          (let relayed = map progressCallback reports;
               s1 = s\<lparr>initProgress := last (starting_progress # relayed)\<rparr>;
               fx1 = fx @ [SetInitProgress starting_progress,
                           CallCreateMLCEngine modelOption settled]
                        @ map SetInitProgress relayed
           in (case settled of
                 Inl err \<Rightarrow>
                   (Inr False, s1\<lparr>initProgress := failure_progress err\<rparr>,
                    fx1 @ [ConsoleError ''Failed to initialize WebLLM:'' err,
                           SetInitProgress (failure_progress err)])
               | Inr mlcEngine \<Rightarrow>
                   (let s2 = s1\<lparr>engine := Some mlcEngine, initialized := True,
                                initProgress := success_progress\<rparr>;
                        fx2 = fx1 @ [SetInitProgress success_progress,
                                     CallGetGPUVendor mlcEngine (getGPUVendor w mlcEngine)]
                    in (case getGPUVendor w mlcEngine of
                          Inr vendor \<Rightarrow>
                            (Inr True,
                             s2\<lparr>systemInfo := (systemInfo s2)\<lparr>gpuVendor := Some vendor\<rparr>\<rparr>,
                             fx2)
                        | Inl e \<Rightarrow>
                            (Inr True, s2,
                             fx2 @ [ConsoleLog ''Could not get GPU vendor:'' e]))))))"

definition initialize ::
  "host \<Rightarrow> 'e engine_behaviour \<Rightarrow> WebLLMModelOption \<Rightarrow> 'e provider_state \<Rightarrow>
   ('e, bool) outcome" where
  "initialize h w modelOption s =
     (if initialized s \<and> engine s \<noteq> None then (Inr True, s, [])
      else if \<not> supported s then
        (case checkWebLLMSupport h s of
           (Inl err, s1, fx1) \<Rightarrow> (Inl err, s1, fx1)
         | (Inr isSupported, s1, fx1) \<Rightarrow>
             if \<not> isSupported then
               (Inr False, s1\<lparr>initProgress := unsupported_progress\<rparr>,
                fx1 @ [SetInitProgress unsupported_progress])
             else create_session w modelOption s1 fx1)
      else create_session w modelOption s [])"

text \<open>
  \<^verbatim>\<open>initialize\<close> is built by \<^verbatim>\<open>useCallback\<close> with the dependencies
  \<^verbatim>\<open>initialized\<close>, \<^verbatim>\<open>engine\<close> and \<^verbatim>\<open>supported\<close> (line 154): the function a
  render hands out reads these three from that render, \<open>c\<close> below, for as long as
  the caller keeps it. Its setters, and the \<^verbatim>\<open>checkWebLLMSupport\<close> it awaits, act on
  the current state \<open>s\<close>. The definition above is the case \<open>c = s\<close>, the callback of
  the latest render.
\<close>

definition initialize_held ::
  "host \<Rightarrow> 'e engine_behaviour \<Rightarrow> WebLLMModelOption \<Rightarrow> 'e provider_state \<Rightarrow>
   'e provider_state \<Rightarrow> ('e, bool) outcome" where
  "initialize_held h w modelOption c s =
     (if initialized c \<and> engine c \<noteq> None then (Inr True, s, [])
      else if \<not> supported c then
        (case checkWebLLMSupport h s of
           (Inl err, s1, fx1) \<Rightarrow> (Inl err, s1, fx1)
         | (Inr isSupported, s1, fx1) \<Rightarrow>
             if \<not> isSupported then
               (Inr False, s1\<lparr>initProgress := unsupported_progress\<rparr>,
                fx1 @ [SetInitProgress unsupported_progress])
             else create_session w modelOption s1 fx1)
      else create_session w modelOption s [])"

subsection \<open>\<^verbatim>\<open>generate\<close>\<close>

definition system_message :: ChatMessage where
  "system_message = \<lparr>role = System, content = ''You are a helpful AI assistant.''\<rparr>"

definition build_request :: "string \<Rightarrow> GenerationOptions \<Rightarrow> ChatCompletionRequest" where
  "build_request prompt options =
     \<lparr>req_messages = [system_message, \<lparr>role = User, content = prompt\<rparr>],
      req_temperature = (case temperature options of None \<Rightarrow> 0.7 | Some t \<Rightarrow> t),
      req_max_tokens = max_tokens options,
      req_top_p = top_p options,
      req_stop = stop options\<rparr>"

text \<open>
  \<^verbatim>\<open>response.choices[0].message.content\<close>: on an empty array \<^verbatim>\<open>choices[0]\<close> is
  \<^verbatim>\<open>undefined\<close> and reading \<^verbatim>\<open>message\<close> from it throws a \<^verbatim>\<open>TypeError\<close>.
\<close>

definition undefined_message_error :: thrown where
  "undefined_message_error =
     JsError ''Cannot read properties of undefined (reading 'message')''"

definition first_choice_content :: "ChatCompletion \<Rightarrow> string option promise" where
  "first_choice_content response =
     (case choices response of
        [] \<Rightarrow> Inl undefined_message_error
      | c # _ \<Rightarrow> Inr (message_content c))"

text \<open>\<^verbatim>\<open>content || ''\<close>: \<^verbatim>\<open>null\<close> and the empty string are falsy.\<close>

definition or_empty :: "string option \<Rightarrow> string" where
  "or_empty c = (case c of None \<Rightarrow> [] | Some t \<Rightarrow> (if t = [] then [] else t))"

definition not_initialized_response :: GenerationResponse where
  "not_initialized_response =
     \<lparr>response_text = [], response_status = GenError,
      response_error = Some ''WebLLM not initialized. Call initialize() first.''\<rparr>"

definition failure_response :: "thrown \<Rightarrow> GenerationResponse" where
  "failure_response err =
     \<lparr>response_text = [], response_status = GenError,
      response_error =
        Some (case err of JsError m \<Rightarrow> m | NonError _ \<Rightarrow> ''Unknown error generating text'')\<rparr>"

definition generate ::
  "'e engine_behaviour \<Rightarrow> string \<Rightarrow> GenerationOptions \<Rightarrow> 'e provider_state \<Rightarrow>
   ('e, GenerationResponse) outcome" where
  "generate w prompt options s =
     (case engine s of
        None \<Rightarrow> (Inr not_initialized_response, s, [])
      | Some e \<Rightarrow>
          if \<not> initialized s then (Inr not_initialized_response, s, [])
          else
            (let request = build_request prompt options;
                 settled = completionsCreate w e request;
                 call = CallCompletionsCreate e request settled
             in (case (case settled of Inl err \<Rightarrow> Inl err
                                     | Inr response \<Rightarrow> first_choice_content response) of
                   Inr c \<Rightarrow>
                     (Inr \<lparr>response_text = or_empty c, response_status = GenSuccess,
                           response_error = None\<rparr>, s, [call])
                 | Inl err \<Rightarrow>
                     (Inr (failure_response err), s,
                      [call, ConsoleError ''Error generating text with WebLLM:'' err]))))"

subsection \<open>\<^verbatim>\<open>resetChat\<close>\<close>

definition resetChat :: "'e engine_behaviour \<Rightarrow> 'e provider_state \<Rightarrow> ('e, unit) outcome" where
  "resetChat w s =
     (case engine s of
        None \<Rightarrow> (Inr (), s, [])
      | Some e \<Rightarrow>
          (case engineResetChat w e of
             Inr u \<Rightarrow> (Inr (), s, [CallResetChat e (Inr u)])
           | Inl err \<Rightarrow>
               (Inr (), s,
                [CallResetChat e (Inl err), ConsoleError ''Error resetting chat:'' err])))"

subsection \<open>Histories of a provider\<close>

text \<open>
  The states a provider can be in, in a browser \<open>h\<close> that stays the same, with the
  effects performed so far: it starts in \<open>initial_state\<close>, and each step is one of the
  four operations, against any behaviour of the engine.
\<close>

inductive reachable :: "host \<Rightarrow> 'e provider_state \<Rightarrow> 'e effect list \<Rightarrow> bool"
  for h :: host where
    start: "reachable h initial_state []"
  | probe: "reachable h s tr \<Longrightarrow> checkWebLLMSupport h s = (r, s', fx) \<Longrightarrow>
            reachable h s' (tr @ fx)"
  | init: "reachable h s tr \<Longrightarrow> initialize h w modelOption s = (r, s', fx) \<Longrightarrow>
           reachable h s' (tr @ fx)"
  | gen: "reachable h s tr \<Longrightarrow> generate w prompt options s = (r, s', fx) \<Longrightarrow>
          reachable h s' (tr @ fx)"
  | reset: "reachable h s tr \<Longrightarrow> resetChat w s = (r, s', fx) \<Longrightarrow>
            reachable h s' (tr @ fx)"

subsection \<open>Reading states and effect lists\<close>

text \<open>The guard of \<^verbatim>\<open>initialize\<close>'s first line: a session is stored and marked.\<close>

definition Ready :: "'e provider_state \<Rightarrow> bool" where
  "Ready s = (initialized s \<and> engine s \<noteq> None)"

text \<open>
  On an effect list: the calls of \<^verbatim>\<open>CreateMLCEngine\<close>, whether one of them was
  fulfilled, and the values given to \<^verbatim>\<open>setInitProgress\<close>, in order.
\<close>

fun is_session_created :: "'e effect \<Rightarrow> bool" where
  "is_session_created (CallCreateMLCEngine m (Inr e)) = True"
| "is_session_created _ = False"

fun is_create_call :: "'e effect \<Rightarrow> bool" where
  "is_create_call (CallCreateMLCEngine m settled) = True"
| "is_create_call _ = False"

definition session_created :: "'e effect list \<Rightarrow> bool" where
  "session_created tr = (filter is_session_created tr \<noteq> [])"

definition create_calls :: "'e effect list \<Rightarrow> 'e effect list" where
  "create_calls tr = filter is_create_call tr"

fun progress_updates :: "'e effect list \<Rightarrow> WebLLMInitProgress list" where
  "progress_updates [] = []"
| "progress_updates (SetInitProgress p # fx) = p # progress_updates fx"
| "progress_updates (_ # fx) = progress_updates fx"

text \<open>
  What holds of every state of a history: \<^verbatim>\<open>initialized\<close> and \<^verbatim>\<open>engine\<close> are set
  together, a session is stored exactly when a creation was fulfilled, and a vendor is
  known only then.
\<close>

definition consistent :: "'e provider_state \<Rightarrow> 'e effect list \<Rightarrow> bool" where
  "consistent s tr =
     ((initialized s \<longleftrightarrow> engine s \<noteq> None) \<and>
      (engine s \<noteq> None \<longleftrightarrow> session_created tr) \<and>
      (gpuVendor (systemInfo s) \<noteq> None \<longrightarrow> session_created tr))"

text \<open>
  The \<^verbatim>\<open>progress\<close> values given to \<^verbatim>\<open>setInitProgress\<close> with status
  \<^verbatim>\<open>initializing\<close>, in order: what an observer of \<^verbatim>\<open>initProgress\<close> sees
  while an attempt is under way.
\<close>

definition initializing_progress :: "'e effect list \<Rightarrow> number list" where
  "initializing_progress fx =
     map progress (filter (\<lambda>p. status p = StInitializing) (progress_updates fx))"

text \<open>
  A \<^verbatim>\<open>GenerationResponse\<close> is either a success without an error message, or an
  error with a message and an empty text.
\<close>

definition well_formed_response :: "GenerationResponse \<Rightarrow> bool" where
  "well_formed_response resp =
     (case response_status resp of
        GenSuccess \<Rightarrow> response_error resp = None
      | GenError \<Rightarrow> response_error resp \<noteq> None \<and> response_text resp = [])"

subsection \<open>Sample browsers and engines\<close>

text \<open>
  A browser with WebAssembly, WebGPU and WebGL; the same browser without WebAssembly;
  and engines, with a number as session handle, for the runs evaluated below.
\<close>

definition gpu_host :: host where
  "gpu_host =
     \<lparr>webAssemblyIsObject = True, gpuInNavigator = Inr True,
      createCanvas = Inr \<lparr>getContext_webgl = Inr True, getContext_webgl2 = Inr True\<rparr>,
      sharedArrayBufferIsFunction = True\<rparr>"

definition no_wasm_host :: host where
  "no_wasm_host = gpu_host\<lparr>webAssemblyIsObject := False\<rparr>"

definition hello_completion :: ChatCompletion where
  "hello_completion = \<lparr>choices = [\<lparr>message_content = Some ''hello''\<rparr>]\<rparr>"

definition demo_engine :: "nat engine_behaviour" where
  "demo_engine =
     \<lparr>createMLCEngine =
        (\<lambda>m. ([\<lparr>report_progress = 0.3, report_text = ''Fetching''\<rparr>,
               \<lparr>report_progress = 0.9, report_text = ''Loading''\<rparr>], Inr 1)),
      getGPUVendor = (\<lambda>e. Inr ''apple''),
      completionsCreate = (\<lambda>e request. Inr hello_completion),
      engineResetChat = (\<lambda>e. Inr ())\<rparr>"

definition oom_engine :: "nat engine_behaviour" where
  "oom_engine =
     demo_engine\<lparr>createMLCEngine :=
        (\<lambda>m. ([\<lparr>report_progress = 0.3, report_text = ''Fetching''\<rparr>],
              Inl (JsError ''OOM'')))\<rparr>"

definition regressing_engine :: "nat engine_behaviour" where
  "regressing_engine =
     demo_engine\<lparr>createMLCEngine :=
        (\<lambda>m. ([\<lparr>report_progress = 0.9, report_text = ''Loading''\<rparr>,
               \<lparr>report_progress = 0.3, report_text = ''Fetching''\<rparr>], Inr 1))\<rparr>"

definition failing_engine :: "nat engine_behaviour" where
  "failing_engine =
     demo_engine\<lparr>completionsCreate := (\<lambda>e request. Inl (JsError ''device lost'')),
                 engineResetChat := (\<lambda>e. Inl (JsError ''device lost''))\<rparr>"

definition null_content_engine :: "nat engine_behaviour" where
  "null_content_engine =
     demo_engine\<lparr>completionsCreate :=
        (\<lambda>e request. Inr \<lparr>choices = [\<lparr>message_content = None\<rparr>]\<rparr>)\<rparr>"

text \<open>The state after \<open>initialize gpu_host demo_engine defaultModel initial_state\<close>.\<close>

definition ready_state :: "nat provider_state" where
  "ready_state =
     \<lparr>engine = Some 1, initialized = True, supported = True,
      initProgress = success_progress,
      systemInfo = \<lparr>info_supported = True, webGPUAvailable = True,
                    webGLAvailable = True, sharedArrayBufferAvailable = True,
                    gpuVendor = Some ''apple''\<rparr>\<rparr>"

definition no_options :: GenerationOptions where
  "no_options =
     \<lparr>temperature = None, max_tokens = None, top_p = None, top_k = None,
      repetition_penalty = None, stop = None\<rparr>"

text \<open>An engine whose session creation is fulfilled with another handle, and the effects
  of an \<^verbatim>\<open>initialize\<close> that reaches it from \<open>ready_state\<close>.\<close>

definition second_engine :: "nat engine_behaviour" where
  "second_engine = demo_engine\<lparr>createMLCEngine := (\<lambda>m. ([], Inr 2))\<rparr>"

definition second_effects :: "nat effect list" where
  "second_effects =
     [SetInitProgress starting_progress,
      CallCreateMLCEngine defaultModel (Inr 2),
      SetInitProgress success_progress,
      CallGetGPUVendor 2 (Inr ''apple'')]"

text \<open>The effects of \<open>initialize gpu_host demo_engine defaultModel initial_state\<close>.\<close>

definition demo_effects :: "nat effect list" where
  "demo_effects =
     [SetInitProgress starting_progress,
      CallCreateMLCEngine defaultModel (Inr 1),
      SetInitProgress \<lparr>progress = 0.3, progress_text = ''Fetching'', status = StInitializing\<rparr>,
      SetInitProgress \<lparr>progress = 0.9, progress_text = ''Loading'', status = StInitializing\<rparr>,
      SetInitProgress success_progress,
      CallGetGPUVendor 1 (Inr ''apple'')]"

section \<open>Properties\<close>

subsection \<open>Effect lists\<close>

lemma progress_updates_append [simp]:
  "progress_updates (xs @ ys) = progress_updates xs @ progress_updates ys"
  by (induction xs rule: progress_updates.induct) auto

lemma progress_updates_map [simp]: "progress_updates (map SetInitProgress ps) = ps"
  by (induction ps) auto

lemma create_calls_append [simp]:
  "create_calls (xs @ ys) = create_calls xs @ create_calls ys"
  by (simp add: create_calls_def)

lemma create_calls_map [simp]: "create_calls (map SetInitProgress ps) = []"
  by (induction ps) (auto simp: create_calls_def)

lemma session_created_map [simp]: "\<not> session_created (map SetInitProgress ps)"
  by (induction ps) (auto simp: session_created_def)

lemma session_created_append:
  "session_created (tr @ fx) = (session_created tr \<or> session_created fx)"
  by (auto simp: session_created_def)

lemma session_created_create_calls: "session_created tr \<Longrightarrow> create_calls tr \<noteq> []"
proof (induction tr)
  case Nil
  then show ?case by (simp add: session_created_def)
next
  case (Cons x tr)
  then show ?case
    by (cases x) (auto simp: session_created_def create_calls_def split: if_splits)
qed

lemma initializing_progress_append:
  "initializing_progress (xs @ ys) = initializing_progress xs @ initializing_progress ys"
  by (simp add: initializing_progress_def)

lemma initializing_progress_relayed:
  "initializing_progress (map (SetInitProgress \<circ> progressCallback) reports) =
     map report_progress reports"
  by (induction reports) (simp_all add: initializing_progress_def progressCallback_def)

lemma initializing_progress_simps:
  "initializing_progress [] = []"
  "initializing_progress (SetInitProgress p # fx) =
     (if status p = StInitializing then progress p # initializing_progress fx
      else initializing_progress fx)"
  "initializing_progress (CallCreateMLCEngine m settled # fx) = initializing_progress fx"
  "initializing_progress (CallGetGPUVendor e v # fx) = initializing_progress fx"
  "initializing_progress (ConsoleError t err # fx) = initializing_progress fx"
  "initializing_progress (ConsoleLog t err # fx) = initializing_progress fx"
  by (simp_all add: initializing_progress_def)

subsection \<open>One operation\<close>

text \<open>
  The probe touches neither the session nor \<^verbatim>\<open>initProgress\<close>, never rejects, and
  answers yes only where WebAssembly is present.
\<close>

lemma checkWebLLMSupport_frame:
  assumes "checkWebLLMSupport h s = (r, s', fx)"
  shows "engine s' = engine s" "initialized s' = initialized s"
    "initProgress s' = initProgress s"
    "gpuVendor (systemInfo s') = None \<or> gpuVendor (systemInfo s') = gpuVendor (systemInfo s)"
    "\<not> session_created fx" "\<exists>b. r = Inr b"
    "supported s' \<longleftrightarrow> r = Inr True"
    "r = Inr True \<longrightarrow> webAssemblyIsObject h"
  using assms
  by (auto simp: checkWebLLMSupport_def mark_unsupported_def session_created_def Let_def
      split: if_splits sum.splits prod.splits)

lemma checkWebLLMSupport_calls:
  assumes "checkWebLLMSupport h s = (r, s', fx)"
  shows "create_calls fx = []" "progress_updates fx = []"
  using assms
  by (auto simp: checkWebLLMSupport_def create_calls_def Let_def
      split: if_splits sum.splits prod.splits)


text \<open>The two ways lines 108 to 152 can end.\<close>

lemma create_session_cases:
  assumes "create_session w m s fx = (r, s', fx')"
  obtains
    (failed) reports err where "createMLCEngine w m = (reports, Inl err)"
      "r = Inr False" "s' = s\<lparr>initProgress := failure_progress err\<rparr>"
      "fx' = fx @ [SetInitProgress starting_progress, CallCreateMLCEngine m (Inl err)]
              @ map SetInitProgress (map progressCallback reports)
              @ [ConsoleError ''Failed to initialize WebLLM:'' err,
                 SetInitProgress (failure_progress err)]"
  | (created) reports e where "createMLCEngine w m = (reports, Inr e)"
      "r = Inr True"
      "s' = s\<lparr>engine := Some e, initialized := True, initProgress := success_progress,
              systemInfo := (case getGPUVendor w e of
                 Inr vendor \<Rightarrow> (systemInfo s)\<lparr>gpuVendor := Some vendor\<rparr>
               | Inl _ \<Rightarrow> systemInfo s)\<rparr>"
      "fx' = fx @ [SetInitProgress starting_progress, CallCreateMLCEngine m (Inr e)]
              @ map SetInitProgress (map progressCallback reports)
              @ [SetInitProgress success_progress, CallGetGPUVendor e (getGPUVendor w e)]
              @ (case getGPUVendor w e of Inr _ \<Rightarrow> []
                 | Inl x \<Rightarrow> [ConsoleLog ''Could not get GPU vendor:'' x])"
  using assms
  by (auto simp: create_session_def Let_def split: prod.splits sum.splits)

lemma create_session_true:
  assumes "create_session w m s fx = (Inr True, s', fx')" and "create_calls fx = []"
  shows "Ready s' \<and> length (create_calls fx') = 1"
  using assms(1)
proof (cases rule: create_session_cases)
  case (failed reports err)
  then show ?thesis by simp
next
  case (created reports e)
  with assms(2) show ?thesis
    by (simp add: Ready_def create_calls_def split: sum.splits)
qed


lemma create_session_progress:
  assumes "create_session w m s fx = (r, s', fx')"
  shows "initializing_progress fx' =
           initializing_progress fx @ 0 # map report_progress (fst (createMLCEngine w m)) \<and>
         create_calls fx' \<noteq> []"
  using assms
proof (cases rule: create_session_cases)
  case (failed reports err)
  from failed(1,4) show ?thesis
    by (simp add: initializing_progress_append initializing_progress_relayed
        initializing_progress_simps starting_progress_def failure_progress_def
        create_calls_def)
next
  case (created reports e)
  from created(1,4) show ?thesis
    by (cases "getGPUVendor w e")
       (simp_all add: initializing_progress_append initializing_progress_relayed
        initializing_progress_simps starting_progress_def success_progress_def
        create_calls_def)
qed

text \<open>The four ways \<^verbatim>\<open>initialize\<close> can go.\<close>

lemma initialize_ready: "Ready s \<Longrightarrow> initialize h w m s = (Inr True, s, [])"
  by (simp add: initialize_def Ready_def)

lemma initialize_direct:
  "\<not> Ready s \<Longrightarrow> supported s \<Longrightarrow> initialize h w m s = create_session w m s []"
  by (cases "initialized s"; cases "engine s") (simp_all add: initialize_def Ready_def)

lemma initialize_probed:
  "\<not> Ready s \<Longrightarrow> \<not> supported s \<Longrightarrow> checkWebLLMSupport h s = (Inr b, s1, fx1) \<Longrightarrow>
   initialize h w m s =
     (if b then create_session w m s1 fx1
      else (Inr False, s1\<lparr>initProgress := unsupported_progress\<rparr>,
            fx1 @ [SetInitProgress unsupported_progress]))"
  by (cases "initialized s"; cases "engine s") (simp_all add: initialize_def Ready_def)

lemma initialize_cases:
  assumes "initialize h w m s = (r, s', fx)"
  obtains
    (ready) "Ready s" "r = Inr True" "s' = s" "fx = []"
  | (unsupported) s1 fx1 where "\<not> Ready s" "\<not> supported s"
      "checkWebLLMSupport h s = (Inr False, s1, fx1)" "r = Inr False"
      "s' = s1\<lparr>initProgress := unsupported_progress\<rparr>"
      "fx = fx1 @ [SetInitProgress unsupported_progress]"
  | (probed) s1 fx1 where "\<not> Ready s" "\<not> supported s"
      "checkWebLLMSupport h s = (Inr True, s1, fx1)"
      "create_session w m s1 fx1 = (r, s', fx)"
  | (direct) "\<not> Ready s" "supported s" "create_session w m s [] = (r, s', fx)"
proof (cases "Ready s")
  case True
  from assms initialize_ready[OF True, of h w m]
  have "r = Inr True" "s' = s" "fx = []" by simp_all
  with True show ?thesis by (rule ready)
next
  case nr: False
  show ?thesis
  proof (cases "supported s")
    case True
    from assms initialize_direct[OF nr True, of h w m]
    have "create_session w m s [] = (r, s', fx)" by simp
    with nr True show ?thesis by (rule direct)
  next
    case ns: False
    obtain r1 s1 fx1 where c: "checkWebLLMSupport h s = (r1, s1, fx1)"
      by (cases "checkWebLLMSupport h s") auto
    from checkWebLLMSupport_frame(6)[OF c] obtain b where b: "r1 = Inr b" by blast
    note eq = initialize_probed[OF nr ns c[unfolded b], of w m]
    show ?thesis
    proof (cases b)
      case True
      with eq assms have "create_session w m s1 fx1 = (r, s', fx)" by simp
      moreover from c b True have "checkWebLLMSupport h s = (Inr True, s1, fx1)" by simp
      ultimately show ?thesis using nr ns probed by metis
    next
      case False
      with eq assms have "r = Inr False" "s' = s1\<lparr>initProgress := unsupported_progress\<rparr>"
        "fx = fx1 @ [SetInitProgress unsupported_progress]" by simp_all
      moreover from c b False have "checkWebLLMSupport h s = (Inr False, s1, fx1)" by simp
      ultimately show ?thesis using nr ns unsupported by metis
    qed
  qed
qed

lemma initialize_vendor:
  assumes i: "initialize h w m s = (r, s', fx)" and n: "\<not> session_created fx"
  shows "gpuVendor (systemInfo s') = None \<or>
         gpuVendor (systemInfo s') = gpuVendor (systemInfo s)"
  using i
proof (cases rule: initialize_cases)
  case ready
  then show ?thesis by simp
next
  case (unsupported s1 fx1)
  with checkWebLLMSupport_frame(4)[OF unsupported(3)] show ?thesis by simp
next
  case (probed s1 fx1)
  from probed(4) show ?thesis
  proof (cases rule: create_session_cases)
    case (failed reports err)
    with checkWebLLMSupport_frame(4)[OF probed(3)] show ?thesis by simp
  next
    case (created reports e)
    with n show ?thesis by (simp add: session_created_def)
  qed
next
  case direct
  from direct(3) show ?thesis
  proof (cases rule: create_session_cases)
    case (failed reports err)
    then show ?thesis by simp
  next
    case (created reports e)
    with n show ?thesis by (simp add: session_created_def)
  qed
qed

text \<open>
  Through the callback of a render in which the session is stored and marked,
  \<^verbatim>\<open>initialize\<close> is fulfilled with \<^verbatim>\<open>true\<close> and does nothing, whatever the current
  state. An \<^verbatim>\<open>initialize\<close> of the latest render that is fulfilled with \<^verbatim>\<open>true\<close>
  leaves such a state, having called \<^verbatim>\<open>CreateMLCEngine\<close> once unless the session
  was there before.
\<close>

lemma initialize_held_latest: "initialize_held h w m s s = initialize h w m s"
  by (simp add: initialize_held_def initialize_def)

lemma initialize_held_ready:
  "Ready c \<Longrightarrow> initialize_held h w m c s = (Inr True, s, [])"
  by (simp add: initialize_held_def Ready_def)

lemma initialize_idempotent:
  "(Ready s \<longrightarrow> initialize h w m s = (Inr True, s, [])) \<and>
   (initialize h w m s = (Inr True, s1, fx1) \<longrightarrow>
      Ready s1 \<and>
      initialize h2 w2 m2 s1 = (Inr True, s1, []) \<and>
      initialize h3 w3 m3 s1 = (Inr True, s1, []) \<and>
      length (create_calls fx1) = (if Ready s then 0 else 1))"
proof (intro conjI impI)
  assume "Ready s" then show "initialize h w m s = (Inr True, s, [])"
    by (rule initialize_ready)
next
  assume i: "initialize h w m s = (Inr True, s1, fx1)"
  have "Ready s1 \<and> length (create_calls fx1) = (if Ready s then 0 else 1)"
    using i
  proof (cases rule: initialize_cases)
    case ready
    then show ?thesis by (simp add: create_calls_def)
  next
    case (unsupported s1 fx1)
    then show ?thesis by simp
  next
    case (probed s2 fx2)
    from create_session_true[OF probed(4) checkWebLLMSupport_calls(1)[OF probed(3)]] probed(1)
    show ?thesis by simp
  next
    case direct
    from create_session_true[OF direct(3)] direct(1)
    show ?thesis by (simp add: create_calls_def)
  qed
  then show "Ready s1" "length (create_calls fx1) = (if Ready s then 0 else 1)"
    by simp_all
  from \<open>Ready s1\<close> show "initialize h2 w2 m2 s1 = (Inr True, s1, [])"
    "initialize h3 w3 m3 s1 = (Inr True, s1, [])"
    by (rule initialize_ready)+
qed

text \<open>\<^verbatim>\<open>generate\<close> and \<^verbatim>\<open>resetChat\<close> call no state setter.\<close>

lemma generate_frame:
  assumes "generate w p opts s = (r, s', fx)"
  shows "s' = s" "\<not> session_created fx" "create_calls fx = []" "progress_updates fx = []"
  using assms
  by (auto simp: generate_def Let_def session_created_def create_calls_def
      split: option.splits if_splits sum.splits)

lemma generate_ready:
  assumes "Ready s" and "engine s = Some e"
  shows "\<exists>r rest. generate w prompt options s =
           (r, s, CallCompletionsCreate e (build_request prompt options)
                    (completionsCreate w e (build_request prompt options)) # rest)"
  using assms
  by (auto simp: generate_def Ready_def Let_def split: sum.splits)

lemma resetChat_frame:
  assumes "resetChat w s = (r, s', fx)"
  shows "s' = s" "\<not> session_created fx" "create_calls fx = []" "r = Inr ()"
  using assms
  by (auto simp: resetChat_def session_created_def create_calls_def
      split: option.splits sum.splits)

text \<open>
  The request of \<^verbatim>\<open>generate\<close>, field by field; \<^verbatim>\<open>top_k\<close> and
  \<^verbatim>\<open>repetition_penalty\<close> of the options are read nowhere.
\<close>

lemma build_request_fields:
  "req_messages (build_request prompt options) =
     [system_message, \<lparr>role = User, content = prompt\<rparr>]"
  "req_temperature (build_request prompt options) =
     (case temperature options of None \<Rightarrow> 0.7 | Some t \<Rightarrow> t)"
  "req_max_tokens (build_request prompt options) = max_tokens options"
  "req_top_p (build_request prompt options) = top_p options"
  "req_stop (build_request prompt options) = stop options"
  by (simp_all add: build_request_def)

lemma build_request_ignores_top_k:
  "build_request prompt (options\<lparr>top_k := k, repetition_penalty := p\<rparr>) =
   build_request prompt options"
  by (simp add: build_request_def)

lemma generate_ignores_top_k:
  "generate w prompt (options\<lparr>top_k := k, repetition_penalty := p\<rparr>) s =
   generate w prompt options s"
  unfolding generate_def build_request_ignores_top_k by (rule refl)

subsection \<open>Histories\<close>

lemma create_session_consistent:
  assumes c: "create_session w m s fx = (r, s', fx')"
    and "initialized s \<longleftrightarrow> engine s \<noteq> None"
    and "engine s \<noteq> None \<longleftrightarrow> session_created (tr @ fx)"
    and "gpuVendor (systemInfo s) \<noteq> None \<longrightarrow> session_created (tr @ fx)"
  shows "consistent s' (tr @ fx')"
  using c
proof (cases rule: create_session_cases)
  case (failed reports err)
  with assms(2-4) show ?thesis
    by (simp add: consistent_def session_created_def)
next
  case (created reports e)
  then show ?thesis
    by (simp add: consistent_def session_created_def)
qed

lemma initialize_consistent:
  assumes i: "initialize h w m s = (r, s', fx)" and inv: "consistent s tr"
  shows "consistent s' (tr @ fx)"
  using i
proof (cases rule: initialize_cases)
  case ready
  with inv show ?thesis by simp
next
  case (unsupported s1 fx1)
  note f = checkWebLLMSupport_frame[OF unsupported(3)]
  from inv f(1,2,4,5) unsupported(5,6) show ?thesis
    by (auto simp: consistent_def session_created_def)
next
  case (probed s1 fx1)
  note f = checkWebLLMSupport_frame[OF probed(3)]
  from inv f(1,2,4,5) show ?thesis
    by (intro create_session_consistent[OF probed(4)])
       (auto simp: consistent_def session_created_def)
next
  case direct
  from inv show ?thesis
    by (intro create_session_consistent[OF direct(3)])
       (auto simp: consistent_def)
qed

lemma reachable_consistent: "reachable h s tr \<Longrightarrow> consistent s tr"
proof (induction rule: reachable.induct)
  case start
  show ?case by (simp add: consistent_def initial_state_def session_created_def)
next
  case (probe s tr r s' fx)
  note f = checkWebLLMSupport_frame[OF probe(2)]
  from probe(3) f(1,2,4,5) show ?case
    by (auto simp: consistent_def session_created_def)
next
  case (init s tr w modelOption r s' fx)
  then show ?case by (simp add: initialize_consistent)
next
  case (gen s tr w prompt options r s' fx)
  from gen(3) generate_frame(1,2)[OF gen(2)] show ?case
    by (auto simp: consistent_def session_created_def)
next
  case (reset s tr w r s' fx)
  from reset(3) resetChat_frame(1,2)[OF reset(2)] show ?case
    by (auto simp: consistent_def session_created_def)
qed

text \<open>Without WebAssembly the probe never answers yes, and the engine is never asked.\<close>

lemma reachable_without_wasm:
  assumes "reachable h s tr" and nw: "\<not> webAssemblyIsObject h"
  shows "\<not> supported s \<and> create_calls tr = []"
  using assms(1)
proof (induction rule: reachable.induct)
  case start
  show ?case by (simp add: initial_state_def create_calls_def)
next
  case (probe s tr r s' fx)
  note f = checkWebLLMSupport_frame[OF probe(2)] checkWebLLMSupport_calls[OF probe(2)]
  from probe(3) f nw show ?case by auto
next
  case (init s tr w modelOption r s' fx)
  from init(2) show ?case
  proof (cases rule: initialize_cases)
    case ready
    with init(3) show ?thesis by simp
  next
    case (unsupported s1 fx1)
    note f = checkWebLLMSupport_frame[OF unsupported(3)] checkWebLLMSupport_calls[OF unsupported(3)]
    from init(3) f unsupported(5,6) show ?thesis by (simp add: create_calls_def)
  next
    case (probed s1 fx1)
    from checkWebLLMSupport_frame(8)[OF probed(3)] nw show ?thesis by simp
  next
    case direct
    with init(3) show ?thesis by simp
  qed
next
  case (gen s tr w prompt options r s' fx)
  from gen(3) generate_frame[OF gen(2)] show ?case by simp
next
  case (reset s tr w r s' fx)
  from reset(3) resetChat_frame[OF reset(2)] show ?case by simp
qed

subsection \<open>Sample runs\<close>

lemma probe_gpu_host: "checkWebLLMSupport gpu_host (initial_state :: nat provider_state) =
   (Inr True,
    initial_state\<lparr>supported := True,
      systemInfo := \<lparr>info_supported = True, webGPUAvailable = True,
                    webGLAvailable = True, sharedArrayBufferAvailable = True,
                    gpuVendor = None\<rparr>\<rparr>, [])"
  by (simp add: checkWebLLMSupport_def gpu_host_def probe_backends_def)

lemma demo_run:
  "initialize gpu_host demo_engine defaultModel initial_state =
     (Inr True, ready_state, demo_effects)"
  by (simp add: initialize_def probe_gpu_host create_session_def demo_engine_def
      progressCallback_def ready_state_def demo_effects_def Let_def)
     (simp add: initial_state_def)

lemma oom_run:
  "initialize gpu_host oom_engine defaultModel initial_state =
     (Inr False,
      initial_state\<lparr>supported := True,
        systemInfo := \<lparr>info_supported = True, webGPUAvailable = True,
                      webGLAvailable = True, sharedArrayBufferAvailable = True,
                      gpuVendor = None\<rparr>,
        initProgress := \<lparr>progress = 0, progress_text = ''Failed to initialize WebLLM: OOM'',
                         status = StError\<rparr>\<rparr>,
      [SetInitProgress starting_progress,
       CallCreateMLCEngine defaultModel (Inl (JsError ''OOM'')),
       SetInitProgress \<lparr>progress = 0.3, progress_text = ''Fetching'', status = StInitializing\<rparr>,
       ConsoleError ''Failed to initialize WebLLM:'' (JsError ''OOM''),
       SetInitProgress \<lparr>progress = 0, progress_text = ''Failed to initialize WebLLM: OOM'',
                        status = StError\<rparr>])"
  by (simp add: initialize_def probe_gpu_host create_session_def oom_engine_def demo_engine_def
      progressCallback_def failure_progress_def Let_def)
     (simp add: initial_state_def)

lemma regressing_run:
  "initialize gpu_host regressing_engine defaultModel initial_state =
     (Inr True, ready_state,
      [SetInitProgress starting_progress,
       CallCreateMLCEngine defaultModel (Inr 1),
       SetInitProgress \<lparr>progress = 0.9, progress_text = ''Loading'', status = StInitializing\<rparr>,
       SetInitProgress \<lparr>progress = 0.3, progress_text = ''Fetching'', status = StInitializing\<rparr>,
       SetInitProgress success_progress,
       CallGetGPUVendor 1 (Inr ''apple'')])"
  by (simp add: initialize_def probe_gpu_host create_session_def regressing_engine_def
      demo_engine_def progressCallback_def ready_state_def Let_def)
     (simp add: initial_state_def)

lemma no_wasm_run:
  "initialize no_wasm_host demo_engine defaultModel initial_state =
     (Inr False,
      initial_state\<lparr>initProgress := unsupported_progress\<rparr>,
      [SetInitProgress unsupported_progress])"
  by (simp add: initialize_def checkWebLLMSupport_def no_wasm_host_def gpu_host_def
      mark_unsupported_def)
     (simp add: initial_state_def)

lemma probe_ready_state:
  "checkWebLLMSupport gpu_host ready_state =
     (Inr True, ready_state\<lparr>systemInfo := (systemInfo ready_state)\<lparr>gpuVendor := None\<rparr>\<rparr>, [])"
  by (simp add: checkWebLLMSupport_def gpu_host_def probe_backends_def ready_state_def)

lemma held_second_run:
  "initialize_held gpu_host second_engine defaultModel initial_state ready_state =
     (Inr True, ready_state\<lparr>engine := Some 2\<rparr>, second_effects)"
  by (simp add: initialize_held_def probe_ready_state create_session_def second_engine_def
      demo_engine_def second_effects_def Let_def)
     (simp_all add: initial_state_def ready_state_def)

section \<open>The claims\<close>

subsection \<open>A session creation that throws\<close>




subsection \<open>The options forwarded by \<^verbatim>\<open>generate\<close>\<close>

text \<open>
  Claim C2. The request holds the fixed system message and the prompt, the temperature
  with default 0.7, and \<^verbatim>\<open>max_tokens\<close>, \<^verbatim>\<open>top_p\<close> and \<^verbatim>\<open>stop\<close> as given. The
  options \<^verbatim>\<open>top_k\<close> and \<^verbatim>\<open>repetition_penalty\<close>, which \<^verbatim>\<open>GenerationOptions\<close>
  declares, do not reach the engine: with \<^verbatim>\<open>top_k: 40\<close> and
  \<^verbatim>\<open>repetition_penalty: 1.1\<close> the call is the one made with no option at all.
\<close>

theorem generate_drops_top_k:
  "generate demo_engine ''hi''
     (no_options\<lparr>top_k := Some 40, repetition_penalty := Some 1.1\<rparr>) ready_state =
     (Inr \<lparr>response_text = ''hello'', response_status = GenSuccess, response_error = None\<rparr>,
      ready_state,
      [CallCompletionsCreate 1
         \<lparr>req_messages = [\<lparr>role = System, content = ''You are a helpful AI assistant.''\<rparr>,
                          \<lparr>role = User, content = ''hi''\<rparr>],
          req_temperature = 0.7, req_max_tokens = None, req_top_p = None, req_stop = None\<rparr>
         (Inr hello_completion)]) \<and>
   generate demo_engine ''hi''
     (no_options\<lparr>top_k := Some 40, repetition_penalty := Some 1.1\<rparr>) ready_state =
   generate demo_engine ''hi'' no_options ready_state"
  by (simp add: generate_def build_request_def no_options_def ready_state_def
      demo_engine_def system_message_def first_choice_content_def hello_completion_def
      or_empty_def Let_def)

subsection \<open>No WebAssembly\<close>

text \<open>
  Claim C3. In a browser without WebAssembly, whatever its graphics backends, every
  \<^verbatim>\<open>initialize\<close> of a history is fulfilled with \<^verbatim>\<open>false\<close> and leaves the status
  \<^verbatim>\<open>error\<close>, and \<^verbatim>\<open>CreateMLCEngine\<close> is called neither in it nor before it.
\<close>

theorem initialize_without_wasm:
  assumes reach: "reachable h s tr"
    and nw: "\<not> webAssemblyIsObject h"
    and i: "initialize h w m s = (r, s', fx)"
  shows "r = Inr False \<and> status (initProgress s') = StError \<and>
         engine s' = None \<and> \<not> initialized s' \<and> create_calls (tr @ fx) = []"
proof -
  from reachable_without_wasm[OF reach nw]
  have ns: "\<not> supported s" and nc: "create_calls tr = []" by simp_all
  from nc session_created_create_calls have "\<not> session_created tr" by blast
  with reachable_consistent[OF reach]
  have ne: "engine s = None" "\<not> initialized s" by (simp_all add: consistent_def)
  from i show ?thesis
  proof (cases rule: initialize_cases)
    case ready
    with ne show ?thesis by (simp add: Ready_def)
  next
    case (unsupported s1 fx1)
    note f = checkWebLLMSupport_frame[OF unsupported(3)] checkWebLLMSupport_calls[OF unsupported(3)]
    from unsupported(4,5,6) f ne nc show ?thesis
      by (simp add: unsupported_progress_def create_calls_def)
  next
    case (probed s1 fx1)
    from checkWebLLMSupport_frame(8)[OF probed(3)] nw show ?thesis by simp
  next
    case direct
    with ns show ?thesis by simp
  qed
qed

theorem initialize_without_wasm_witness:
  "reachable no_wasm_host (initial_state :: nat provider_state) [] \<and>
   \<not> webAssemblyIsObject no_wasm_host \<and>
   gpuInNavigator no_wasm_host = Inr True \<and>
   initialize no_wasm_host demo_engine defaultModel initial_state =
     (Inr False, initial_state\<lparr>initProgress := unsupported_progress\<rparr>,
      [SetInitProgress unsupported_progress]) \<and>
   status unsupported_progress = StError \<and>
   create_calls [SetInitProgress unsupported_progress :: nat effect] = []"
proof -
  have r: "reachable no_wasm_host (initial_state :: nat provider_state) []"
    by (rule reachable.start)
  have n: "\<not> webAssemblyIsObject no_wasm_host" "gpuInNavigator no_wasm_host = Inr True"
    by (simp_all add: no_wasm_host_def gpu_host_def)
  from initialize_without_wasm[OF r n(1) no_wasm_run] r n no_wasm_run
  show ?thesis by simp
qed

subsection \<open>Initializing twice\<close>

text \<open>
  Claim C4. The guard of line 92 reads \<^verbatim>\<open>initialized\<close> and \<^verbatim>\<open>engine\<close> from the
  render that built the callback. A caller that takes \<^verbatim>\<open>initialize\<close> from the first
  render and calls it twice in a row has the second call read \<^verbatim>\<open>initialized = false\<close>
  although the first call stored a session: it probes again, calls
  \<^verbatim>\<open>CreateMLCEngine\<close> a second time and replaces the stored session, two creations
  in all. Called through the callback of the render that followed the first call,
  \<^verbatim>\<open>initialize\<close> is fulfilled at once with no effect.
\<close>

theorem initialize_held_twice:
  "initialize_held gpu_host demo_engine defaultModel initial_state initial_state =
     (Inr True, ready_state, demo_effects) \<and>
   Ready ready_state \<and>
   initialize_held gpu_host second_engine defaultModel initial_state ready_state =
     (Inr True, ready_state\<lparr>engine := Some 2\<rparr>, second_effects) \<and>
   length (create_calls (demo_effects @ second_effects)) = 2 \<and>
   initialize_held gpu_host second_engine defaultModel ready_state ready_state =
     (Inr True, ready_state, [])"
proof -
  have 1: "initialize_held gpu_host demo_engine defaultModel initial_state initial_state =
     (Inr True, ready_state, demo_effects)"
    by (simp add: initialize_held_latest demo_run)
  have 2: "Ready ready_state" by (simp add: Ready_def ready_state_def)
  have 3: "length (create_calls (demo_effects @ second_effects)) = 2"
    by (simp add: create_calls_def demo_effects_def second_effects_def)
  from 1 2 3 held_second_run initialize_held_ready[OF 2] show ?thesis by simp
qed

subsection \<open>Generation without a session\<close>

text \<open>
  Claim C5. In a history where no session creation was fulfilled, \<^verbatim>\<open>generate\<close>
  answers with status \<^verbatim>\<open>error\<close>, an empty text and a non-empty error message,
  changes nothing and performs no effect: the completion entry point is not called.
\<close>

theorem generate_without_session:
  assumes "reachable h s tr" and "\<not> session_created tr"
  shows "generate w prompt options s = (Inr not_initialized_response, s, []) \<and>
         response_status not_initialized_response = GenError \<and>
         response_text not_initialized_response = [] \<and>
         (\<exists>msg. response_error not_initialized_response = Some msg \<and> msg \<noteq> [])"
proof -
  from reachable_consistent[OF assms(1)] assms(2) have "engine s = None"
    by (simp add: consistent_def)
  then show ?thesis
    by (simp add: generate_def not_initialized_response_def)
qed

theorem generate_without_session_witness:
  "reachable no_wasm_host (initial_state :: nat provider_state) [] \<and>
   \<not> session_created ([] :: nat effect list) \<and>
   generate demo_engine ''hi'' no_options initial_state =
     (Inr \<lparr>response_text = [], response_status = GenError,
           response_error = Some ''WebLLM not initialized. Call initialize() first.''\<rparr>,
      initial_state, [])"
proof -
  have r: "reachable no_wasm_host (initial_state :: nat provider_state) []"
    by (rule reachable.start)
  have n: "\<not> session_created ([] :: nat effect list)"
    by (simp add: session_created_def)
  from generate_without_session[OF r n, of demo_engine "''hi''" no_options] r n
  show ?thesis by (simp add: not_initialized_response_def)
qed

subsection \<open>Progress during an attempt\<close>

text \<open>
  Claim C6, as amended. The \<^verbatim>\<open>progress\<close> values observed with status
  \<^verbatim>\<open>initializing\<close> during one \<^verbatim>\<open>initialize\<close> are 0 followed by the values the engine
  reported, as they are and in their order (none when the engine is not called). So
  they are non-decreasing exactly when 0 followed by the engine's reports is.
\<close>

theorem progress_relayed_verbatim:
  assumes i: "initialize h w m s = (r, s', fx)"
  shows "initializing_progress fx =
           (if create_calls fx = [] then []
            else 0 # map report_progress (fst (createMLCEngine w m))) \<and>
         (sorted (initializing_progress fx) \<longleftrightarrow>
            create_calls fx = [] \<or> sorted (0 # map report_progress (fst (createMLCEngine w m))))"
proof -
  have "initializing_progress fx =
           (if create_calls fx = [] then []
            else 0 # map report_progress (fst (createMLCEngine w m)))"
    using i
  proof (cases rule: initialize_cases)
    case ready
    then show ?thesis by (simp add: initializing_progress_def create_calls_def)
  next
    case (unsupported s1 fx1)
    note c = checkWebLLMSupport_calls[OF unsupported(3)]
    from unsupported(6) c show ?thesis
      by (simp add: initializing_progress_def create_calls_def unsupported_progress_def)
  next
    case (probed s1 fx1)
    note c = checkWebLLMSupport_calls[OF probed(3)]
    from create_session_progress[OF probed(4)] c show ?thesis
      by (simp add: initializing_progress_def)
  next
    case direct
    from create_session_progress[OF direct(3)] show ?thesis
      by (simp add: initializing_progress_def)
  qed
  then show ?thesis by auto
qed

theorem progress_relayed_verbatim_witness:
  "initializing_progress demo_effects = [0, 0.3, 0.9] \<and>
   create_calls demo_effects \<noteq> [] \<and>
   sorted (initializing_progress demo_effects)"
proof -
  have c: "create_calls demo_effects \<noteq> []"
    by (simp add: demo_effects_def create_calls_def)
  have f: "fst (createMLCEngine demo_engine defaultModel) =
      [\<lparr>report_progress = 0.3, report_text = ''Fetching''\<rparr>,
       \<lparr>report_progress = 0.9, report_text = ''Loading''\<rparr>]"
    by (simp add: demo_engine_def)
  from progress_relayed_verbatim[OF demo_run] c f show ?thesis by simp
qed

text \<open>
  The claim as first stated holds for every sequence of reports. An engine that
  reports 0.9 and then 0.3 is relayed as it is: the observed values are 0, 0.9, 0.3.
\<close>

theorem progress_decreases_counterexample:
  "initializing_progress
     (snd (snd (initialize gpu_host regressing_engine defaultModel initial_state))) =
     [0, 0.9, 0.3] \<and>
   \<not> sorted (initializing_progress
     (snd (snd (initialize gpu_host regressing_engine defaultModel initial_state))))"
proof -
  have eq: "initializing_progress
     (snd (snd (initialize gpu_host regressing_engine defaultModel initial_state))) =
     [0, 0.9, 0.3]"
    by (simp add: regressing_run initializing_progress_def starting_progress_def
        success_progress_def)
  have ns: "\<not> sorted [0, 0.9, 0.3 :: real]"
    by (simp add: sorted_wrt2_simps del: sorted_wrt.simps)
  show ?thesis unfolding eq by (rule conjI[OF refl ns])
qed

subsection \<open>\<^verbatim>\<open>generate\<close> never throws\<close>

text \<open>
  Claim C7. Whatever the engine does, \<^verbatim>\<open>generate\<close> is fulfilled, with a response that
  is a success without an error message or an error with a message and an empty text,
  and the state is unchanged. So after any call in a state with a session, a further
  \<^verbatim>\<open>generate\<close> calls the engine's completion entry point again.
\<close>

theorem generate_never_throws:
  "\<exists>resp fx. generate w prompt options s = (Inr resp, s, fx) \<and>
     well_formed_response resp \<and>
     (\<forall>e. Ready s \<and> engine s = Some e \<longrightarrow>
        (\<exists>r2 rest. generate w2 prompt2 options2 s =
           (r2, s, CallCompletionsCreate e (build_request prompt2 options2)
                     (completionsCreate w2 e (build_request prompt2 options2)) # rest)))"
proof -
  have "\<exists>resp fx. generate w prompt options s = (Inr resp, s, fx) \<and>
          well_formed_response resp"
    by (auto simp: generate_def Let_def well_formed_response_def
        not_initialized_response_def failure_response_def
        split: option.splits sum.splits)
  with generate_ready[of s _ w2 prompt2 options2] show ?thesis by blast
qed

theorem generate_never_throws_witness:
  "generate failing_engine ''hi'' no_options ready_state =
     (Inr \<lparr>response_text = [], response_status = GenError,
           response_error = Some ''device lost''\<rparr>,
      ready_state,
      [CallCompletionsCreate 1 (build_request ''hi'' no_options) (Inl (JsError ''device lost'')),
       ConsoleError ''Error generating text with WebLLM:'' (JsError ''device lost'')]) \<and>
   Ready ready_state \<and> engine ready_state = Some 1 \<and>
   generate demo_engine ''again'' no_options ready_state =
     (Inr \<lparr>response_text = ''hello'', response_status = GenSuccess, response_error = None\<rparr>,
      ready_state,
      [CallCompletionsCreate 1 (build_request ''again'' no_options) (Inr hello_completion)])"
proof -
  have a: "Ready ready_state" "engine ready_state = Some 1"
    by (simp_all add: Ready_def ready_state_def)
  have 1: "generate failing_engine ''hi'' no_options ready_state =
     (Inr \<lparr>response_text = [], response_status = GenError,
           response_error = Some ''device lost''\<rparr>,
      ready_state,
      [CallCompletionsCreate 1 (build_request ''hi'' no_options) (Inl (JsError ''device lost'')),
       ConsoleError ''Error generating text with WebLLM:'' (JsError ''device lost'')])"
    by (simp add: generate_def failing_engine_def ready_state_def Let_def failure_response_def)
  have 2: "generate demo_engine ''again'' no_options ready_state =
     (Inr \<lparr>response_text = ''hello'', response_status = GenSuccess, response_error = None\<rparr>,
      ready_state,
      [CallCompletionsCreate 1 (build_request ''again'' no_options) (Inr hello_completion)])"
    by (simp add: generate_def demo_engine_def ready_state_def Let_def
        first_choice_content_def hello_completion_def or_empty_def)
  from generate_never_throws[of failing_engine "''hi''" no_options ready_state
      demo_engine "''again''" no_options] 1 2 a
  show ?thesis by simp
qed

subsection \<open>Resetting\<close>



subsection \<open>The vendor string\<close>

text \<open>
  Claim C9. In every state of a history, a \<^verbatim>\<open>gpuVendor\<close> other than \<^verbatim>\<open>null\<close> means
  that a session creation was fulfilled earlier in the history (and the session is
  stored). From such a state, a probe, and an \<^verbatim>\<open>initialize\<close> in which no session
  creation is fulfilled, set \<^verbatim>\<open>gpuVendor\<close> to \<^verbatim>\<open>null\<close> or leave it as it was.
\<close>

theorem gpuVendor_needs_session:
  assumes reach: "reachable h s tr"
  shows "(gpuVendor (systemInfo s) \<noteq> None \<longrightarrow>
            session_created tr \<and> engine s \<noteq> None \<and> initialized s) \<and>
         (\<forall>r s' fx. checkWebLLMSupport h' s = (r, s', fx) \<longrightarrow>
            gpuVendor (systemInfo s') = None \<or>
            gpuVendor (systemInfo s') = gpuVendor (systemInfo s)) \<and>
         (\<forall>w m r s' fx. initialize h' w m s = (r, s', fx) \<and> \<not> session_created fx \<longrightarrow>
            gpuVendor (systemInfo s') = None \<or>
            gpuVendor (systemInfo s') = gpuVendor (systemInfo s))"
proof (intro conjI allI impI)
  assume "gpuVendor (systemInfo s) \<noteq> None"
  with reachable_consistent[OF reach]
  show "session_created tr" "engine s \<noteq> None" "initialized s"
    by (simp_all add: consistent_def)
next
  fix r s' fx
  assume "checkWebLLMSupport h' s = (r, s', fx)"
  then show "gpuVendor (systemInfo s') = None \<or>
             gpuVendor (systemInfo s') = gpuVendor (systemInfo s)"
    by (rule checkWebLLMSupport_frame(4))
next
  fix w :: "'a engine_behaviour" and m r s' fx
  assume "initialize h' w m s = (r, s', fx) \<and> \<not> session_created fx"
  then show "gpuVendor (systemInfo s') = None \<or>
             gpuVendor (systemInfo s') = gpuVendor (systemInfo s)"
    using initialize_vendor by blast
qed

theorem gpuVendor_needs_session_witness:
  "reachable gpu_host ready_state demo_effects \<and>
   gpuVendor (systemInfo ready_state) = Some ''apple'' \<and>
   session_created demo_effects \<and> engine ready_state = Some 1 \<and>
   initialized ready_state \<and>
   gpuVendor (systemInfo (fst (snd (initialize gpu_host oom_engine defaultModel
     initial_state)))) = None"
proof -
  have "reachable gpu_host ready_state ([] @ demo_effects)"
    by (rule reachable.init[OF reachable.start demo_run])
  then have r: "reachable gpu_host ready_state demo_effects" by simp
  have v: "gpuVendor (systemInfo ready_state) = Some ''apple''"
    by (simp add: ready_state_def)
  have e: "engine ready_state = Some 1" by (simp add: ready_state_def)
  have o: "gpuVendor (systemInfo (fst (snd (initialize gpu_host oom_engine defaultModel
     initial_state)))) = None"
    by (simp add: oom_run)
  from gpuVendor_needs_session[OF r, of gpu_host] r v e o show ?thesis by simp
qed

subsection \<open>A completion without content\<close>

text \<open>
  Claim C10. When the completion is fulfilled and the content of its first choice is
  \<^verbatim>\<open>null\<close>, \<^verbatim>\<open>generate\<close> answers with status \<^verbatim>\<open>success\<close> and the empty text.
\<close>

theorem generate_null_content:
  assumes "Ready s" and "engine s = Some e"
    and "completionsCreate w e (build_request prompt options) = Inr response"
    and "choices response = c # cs" and "message_content c = None"
  shows "generate w prompt options s =
           (Inr \<lparr>response_text = [], response_status = GenSuccess, response_error = None\<rparr>,
            s, [CallCompletionsCreate e (build_request prompt options) (Inr response)])"
  using assms
  by (simp add: generate_def Ready_def Let_def first_choice_content_def or_empty_def)

theorem generate_null_content_witness:
  "Ready ready_state \<and> engine ready_state = Some 1 \<and>
   completionsCreate null_content_engine 1 (build_request ''hi'' no_options) =
     Inr \<lparr>choices = [\<lparr>message_content = None\<rparr>]\<rparr> \<and>
   generate null_content_engine ''hi'' no_options ready_state =
     (Inr \<lparr>response_text = [], response_status = GenSuccess, response_error = None\<rparr>,
      ready_state,
      [CallCompletionsCreate 1 (build_request ''hi'' no_options)
         (Inr \<lparr>choices = [\<lparr>message_content = None\<rparr>]\<rparr>)])"
proof -
  have a: "Ready ready_state" by (simp add: Ready_def ready_state_def)
  have b: "engine ready_state = Some 1" by (simp add: ready_state_def)
  have c: "completionsCreate null_content_engine 1 (build_request ''hi'' no_options) =
     Inr \<lparr>choices = [\<lparr>message_content = None\<rparr>]\<rparr>"
    by (simp add: null_content_engine_def)
  from generate_null_content[OF a b c, of "\<lparr>message_content = None\<rparr>" "[]"] a b c
  show ?thesis by simp
qed

end
